theory Spec2Isabelle
  imports Main "HOL-Library.Multiset"
begin

section \<open>The task manager back end (backend/server.js)\<close>

text \<open>
  The server maps each HTTP route to one or two SQL statements on a SQLite database
  with two tables, \<open>users\<close> and \<open>tasks\<close>, and answers with a JSON body.
  The embedding follows the handlers of \<open>server.js\<close> statement by statement.

  \<^item> The database is an explicit value that every handler takes and returns.
  \<^item> What a handler cannot compute from its arguments comes from an environment:
    the clock behind \<open>CURRENT_TIMESTAMP\<close>, whether the storage engine reports an
    error for a statement (the \<open>err\<close> argument of the sqlite3 callbacks), and the
    two bcrypt functions.
  \<^item> A field of a request body is absent, \<open>null\<close> or a string; these are the values
    the routes are written for (the React client sends strings). A string is a list of
    characters, and \<open>length\<close> is what \<open>password.length\<close> reads. The password of a
    login may be any JSON value: what \<open>bcrypt.compare\<close> does depends on its type.
  \<^item> The task routes run behind \<open>authenticateToken\<close>; the handlers here start where
    it calls \<open>next()\<close>, with \<open>req.user.userId\<close> as the argument \<open>userId\<close>.
    The route parameter \<open>:id\<close> is taken as the row id it denotes.
  \<^item> Each handler also returns the statements it ran, every one with the task rows it
    read or wrote, so that properties of the queries themselves can be stated.
\<close>

subsection \<open>Request values\<close>

datatype jsval = JUndefined | JNull | JStr string

text \<open>JavaScript truthiness: \<open>undefined\<close>, \<open>null\<close> and \<open>''\<close> are falsy.\<close>

fun truthy :: "jsval \<Rightarrow> bool" where
  "truthy (JStr s) = (s \<noteq> [])"
| "truthy JUndefined = False"
| "truthy JNull = False"

text \<open>The text bound to a \<open>?\<close> placeholder; only applied to truthy values.\<close>

fun str_of :: "jsval \<Rightarrow> string" where
  "str_of (JStr s) = s"
| "str_of JUndefined = []"
| "str_of JNull = []"

text \<open>The idiom \<open>v || 'literal'\<close>.\<close>

definition js_or :: "jsval \<Rightarrow> string \<Rightarrow> string" where
  "js_or v lit = (if truthy v then str_of v else lit)"

text \<open>
  Any value that \<open>express.json()\<close> can put into a field: the values above, a number, a
  boolean, or an array or object. A number is written as an integer; the server only
  tests it for zero. \<open>0\<close> and \<open>false\<close> are falsy, arrays and objects are truthy.
\<close>

datatype jsany = JVal jsval | JNum int | JBool bool | JObj

fun truthy_any :: "jsany \<Rightarrow> bool" where
  "truthy_any (JVal v) = truthy v"
| "truthy_any (JNum n) = (n \<noteq> 0)"
| "truthy_any (JBool b) = b"
| "truthy_any JObj = True"

subsection \<open>Tables\<close>

text \<open>
  Column \<open>id\<close> of either table is \<open>INTEGER PRIMARY KEY AUTOINCREMENT\<close>; timestamps
  are seconds. The lists keep the rows in rowid order, the order of a table scan.
\<close>

record user =
  user_row_id :: nat
  email :: string
  password :: string
  user_created_at :: nat

record task =
  task_id :: nat
  title :: string
  description :: string
  status :: string
  user_id :: nat
  created_at :: nat
  updated_at :: nat

record db =
  users :: "user list"
  tasks :: "task list"
  users_seq :: nat
  tasks_seq :: nat

definition empty_db :: db where
  "empty_db = \<lparr>users = [], tasks = [], users_seq = 0, tasks_seq = 0\<rparr>"

subsection \<open>Statements\<close>

text \<open>The seven SQL statements of the file, with their bound parameters in order.\<close>

datatype stmt =
    SelectUserByEmail string
  | InsertUser string string
  | SelectTasksByUser nat
  | InsertTask string string nat
  | SelectTaskById nat
  | UpdateTask string string string nat nat
  | DeleteTask nat nat

datatype sql_error = SqlError

record env =
  now :: nat
  fails :: "stmt \<Rightarrow> bool"
  bcrypt_hash :: "string \<Rightarrow> string"
  bcrypt_compare :: "string \<Rightarrow> string \<Rightarrow> bool"

text \<open>The \<open>WHERE\<close> clause of a statement, as a predicate on task rows.\<close>

fun task_where :: "stmt \<Rightarrow> task \<Rightarrow> bool" where
  "task_where (SelectTasksByUser u) t = (user_id t = u)"
| "task_where (SelectTaskById i) t = (task_id t = i)"
| "task_where (UpdateTask ti de st i u) t = (task_id t = i \<and> user_id t = u)"
| "task_where (DeleteTask i u) t = (task_id t = i \<and> user_id t = u)"
| "task_where (SelectUserByEmail em) t = False"
| "task_where (InsertUser em pw) t = False"
| "task_where (InsertTask ti de u) t = False"

text \<open>
  \<open>AUTOINCREMENT\<close>: the new rowid is one more than the largest rowid the table has
  ever held, which SQLite keeps in \<open>sqlite_sequence\<close>.
\<close>

definition next_rowid :: "nat list \<Rightarrow> nat \<Rightarrow> nat" where
  "next_rowid ids seq = Suc (max seq (fold max ids 0))"

definition new_task :: "env \<Rightarrow> db \<Rightarrow> string \<Rightarrow> string \<Rightarrow> nat \<Rightarrow> task" where
  "new_task e d ti de u =
     \<lparr>task_id = next_rowid (map task_id (tasks d)) (tasks_seq d),
      title = ti, description = de, status = ''pending'', user_id = u,
      created_at = now e, updated_at = now e\<rparr>"

definition select_user_by_email :: "env \<Rightarrow> db \<Rightarrow> string \<Rightarrow> sql_error + user option" where
  "select_user_by_email e d em =
     (if fails e (SelectUserByEmail em) then Inl SqlError
      else Inr (find (\<lambda>u. email u = em) (users d)))"

text \<open>\<open>email TEXT UNIQUE\<close>: inserting a second row with the same email is an error.\<close>

definition insert_user :: "env \<Rightarrow> db \<Rightarrow> string \<Rightarrow> string \<Rightarrow> sql_error + (db \<times> nat)" where
  "insert_user e d em pw =
     (if fails e (InsertUser em pw) \<or> em \<in> set (map email (users d)) then Inl SqlError
      else
        let i = next_rowid (map user_row_id (users d)) (users_seq d);
            row = \<lparr>user_row_id = i, email = em, password = pw, user_created_at = now e\<rparr>
        in Inr (d\<lparr>users := users d @ [row], users_seq := i\<rparr>, i))"

text \<open>
  \<open>ORDER BY created_at DESC\<close>: SQLite's sorter is stable, rows with equal keys stay
  in scan order.
\<close>

definition select_tasks_by_user :: "env \<Rightarrow> db \<Rightarrow> nat \<Rightarrow> sql_error + task list" where
  "select_tasks_by_user e d u =
     (if fails e (SelectTasksByUser u) then Inl SqlError
      else Inr (sort_key (\<lambda>t. - int (created_at t))
                  (filter (task_where (SelectTasksByUser u)) (tasks d))))"

definition insert_task :: "env \<Rightarrow> db \<Rightarrow> string \<Rightarrow> string \<Rightarrow> nat \<Rightarrow> sql_error + (db \<times> nat)" where
  "insert_task e d ti de u =
     (if fails e (InsertTask ti de u) then Inl SqlError
      else
        let row = new_task e d ti de u
        in Inr (d\<lparr>tasks := tasks d @ [row], tasks_seq := task_id row\<rparr>, task_id row))"

definition select_task_by_id :: "env \<Rightarrow> db \<Rightarrow> nat \<Rightarrow> sql_error + task option" where
  "select_task_by_id e d i =
     (if fails e (SelectTaskById i) then Inl SqlError
      else Inr (find (task_where (SelectTaskById i)) (tasks d)))"

text \<open>\<open>db.run\<close> of an \<open>UPDATE\<close> or \<open>DELETE\<close> reports the number of matched rows as \<open>this.changes\<close>.\<close>

definition update_task ::
  "env \<Rightarrow> db \<Rightarrow> string \<Rightarrow> string \<Rightarrow> string \<Rightarrow> nat \<Rightarrow> nat \<Rightarrow> sql_error + (db \<times> nat)" where
  "update_task e d ti de st i u =
     (if fails e (UpdateTask ti de st i u) then Inl SqlError
      else
        Inr (d\<lparr>tasks :=
                 map (\<lambda>t. if task_where (UpdateTask ti de st i u) t
                          then t\<lparr>title := ti, description := de, status := st, updated_at := now e\<rparr>
                          else t) (tasks d)\<rparr>,
             length (filter (task_where (UpdateTask ti de st i u)) (tasks d))))"

definition delete_task :: "env \<Rightarrow> db \<Rightarrow> nat \<Rightarrow> nat \<Rightarrow> sql_error + (db \<times> nat)" where
  "delete_task e d i u =
     (if fails e (DeleteTask i u) then Inl SqlError
      else
        Inr (d\<lparr>tasks := filter (\<lambda>t. \<not> task_where (DeleteTask i u) t) (tasks d)\<rparr>,
             length (filter (task_where (DeleteTask i u)) (tasks d))))"

text \<open>
  The task rows a statement reads or writes when it runs against \<open>d\<close>: the rows its
  \<open>WHERE\<close> clause selects, for an \<open>INSERT\<close> the row it adds, none when the engine fails.
\<close>

definition touched :: "env \<Rightarrow> db \<Rightarrow> stmt \<Rightarrow> task list" where
  "touched e d s =
     (if fails e s then []
      else case s of
        InsertTask ti de u \<Rightarrow> [new_task e d ti de u]
      | _ \<Rightarrow> filter (task_where s) (tasks d))"

definition ran :: "env \<Rightarrow> db \<Rightarrow> stmt \<Rightarrow> stmt \<times> task list" where
  "ran e d s = (s, touched e d s)"

subsection \<open>Responses\<close>

text \<open>\<open>jwt.sign(\<lbrace>userId, email\<rbrace>, secret, \<lbrace>expiresIn: '24h'\<rbrace>)\<close>: the claims of the token.\<close>

record token =
  tok_userId :: nat
  tok_email :: string
  tok_iat :: nat
  tok_exp :: nat

definition jwt_sign :: "env \<Rightarrow> nat \<Rightarrow> string \<Rightarrow> token" where
  "jwt_sign e uid em = \<lparr>tok_userId = uid, tok_email = em, tok_iat = now e, tok_exp = now e + 86400\<rparr>"

datatype json =
    Error string
  | Session string token nat string
  | TaskRow "task option"
  | TaskRows "task list"
  | Message string

record response =
  http_status :: nat
  body :: json

record 'r outcome =
  store :: db
  reply :: 'r
  trace :: "(stmt \<times> task list) list"

definition respond ::
  "db \<Rightarrow> nat \<Rightarrow> json \<Rightarrow> (stmt \<times> task list) list \<Rightarrow> response outcome" where
  "respond d c j tr = \<lparr>store = d, reply = \<lparr>http_status = c, body = j\<rparr>, trace = tr\<rparr>"

text \<open>
  A route whose callback can end without \<open>res\<close> being used has an optional reply:
  \<open>Some\<close> of the response it sends, \<open>None\<close> when it sends none.
\<close>

definition answered :: "response outcome \<Rightarrow> response option outcome" where
  "answered out = \<lparr>store = store out, reply = Some (reply out), trace = trace out\<rparr>"

definition unanswered :: "db \<Rightarrow> (stmt \<times> task list) list \<Rightarrow> response option outcome" where
  "unanswered d tr = \<lparr>store = d, reply = None, trace = tr\<rparr>"

text \<open>
  \<open>await bcrypt.compare(password, user.password)\<close>: bcryptjs resolves to a boolean when
  both arguments are strings and rejects with \<open>Illegal arguments\<close> otherwise
  (\<open>None\<close>). The stored hash is always a string.
\<close>

fun compare_password :: "env \<Rightarrow> jsany \<Rightarrow> string \<Rightarrow> bool option" where
  "compare_password e (JVal (JStr p)) h = Some (bcrypt_compare e p h)"
| "compare_password e (JVal JUndefined) h = None"
| "compare_password e (JVal JNull) h = None"
| "compare_password e (JNum n) h = None"
| "compare_password e (JBool b) h = None"
| "compare_password e JObj h = None"

subsection \<open>Routes\<close>

text \<open>\<open>POST /auth/signup\<close>\<close>

definition signup :: "env \<Rightarrow> db \<Rightarrow> jsval \<Rightarrow> jsval \<Rightarrow> response outcome" where
  "signup e d em pw =
     (if \<not> truthy em \<or> \<not> truthy pw then
        respond d 400 (Error ''Email and password are required'') []
      else if length (str_of pw) < 6 then
        respond d 400 (Error ''Password must be at least 6 characters'') []
      else
        let q1 = SelectUserByEmail (str_of em) in
        case select_user_by_email e d (str_of em) of
          Inl err \<Rightarrow> respond d 500 (Error ''Database error'') [ran e d q1]
        | Inr (Some u) \<Rightarrow> respond d 400 (Error ''User already exists'') [ran e d q1]
        | Inr None \<Rightarrow>
            let hashedPassword = bcrypt_hash e (str_of pw);
                q2 = InsertUser (str_of em) hashedPassword
            in (case insert_user e d (str_of em) hashedPassword of
                  Inl err \<Rightarrow> respond d 500 (Error ''Failed to create user'') [ran e d q1, ran e d q2]
                | Inr (d', lastID) \<Rightarrow>
                    respond d' 201
                      (Session ''User created successfully'' (jwt_sign e lastID (str_of em))
                         lastID (str_of em))
                      [ran e d q1, ran e d q2]))"

text \<open>
  \<open>POST /auth/login\<close>. The password is compared inside the \<open>async\<close> callback of
  \<open>db.get\<close>, which the \<open>try\<close> of the route does not cover: when \<open>bcrypt.compare\<close>
  rejects, the callback ends there and no response is sent.
\<close>

definition login :: "env \<Rightarrow> db \<Rightarrow> jsval \<Rightarrow> jsany \<Rightarrow> response option outcome" where
  "login e d em pw =
     (if \<not> truthy em \<or> \<not> truthy_any pw then
        answered (respond d 400 (Error ''Email and password are required'') [])
      else
        let q1 = SelectUserByEmail (str_of em) in
        case select_user_by_email e d (str_of em) of
          Inl err \<Rightarrow> answered (respond d 500 (Error ''Database error'') [ran e d q1])
        | Inr None \<Rightarrow> answered (respond d 400 (Error ''Invalid credentials'') [ran e d q1])
        | Inr (Some u) \<Rightarrow>
            (case compare_password e pw (password u) of
               None \<Rightarrow> unanswered d [ran e d q1]
             | Some validPassword \<Rightarrow>
                 if \<not> validPassword then
                   answered (respond d 400 (Error ''Invalid credentials'') [ran e d q1])
                 else
                   answered
                     (respond d 200
                        (Session ''Login successful'' (jwt_sign e (user_row_id u) (email u))
                           (user_row_id u) (email u))
                        [ran e d q1])))"

text \<open>\<open>GET /tasks\<close>\<close>

definition get_tasks :: "env \<Rightarrow> db \<Rightarrow> nat \<Rightarrow> response outcome" where
  "get_tasks e d userId =
     (let q1 = SelectTasksByUser userId in
      case select_tasks_by_user e d userId of
        Inl err \<Rightarrow> respond d 500 (Error ''Failed to fetch tasks'') [ran e d q1]
      | Inr rows \<Rightarrow> respond d 200 (TaskRows rows) [ran e d q1])"

text \<open>\<open>POST /tasks\<close>\<close>

definition post_tasks :: "env \<Rightarrow> db \<Rightarrow> nat \<Rightarrow> jsval \<Rightarrow> jsval \<Rightarrow> response outcome" where
  "post_tasks e d userId ti de =
     (if \<not> truthy ti then respond d 400 (Error ''Title is required'') []
      else
        let q1 = InsertTask (str_of ti) (js_or de []) userId in
        case insert_task e d (str_of ti) (js_or de []) userId of
          Inl err \<Rightarrow> respond d 500 (Error ''Failed to create task'') [ran e d q1]
        | Inr (d', lastID) \<Rightarrow>
            let q2 = SelectTaskById lastID in
            (case select_task_by_id e d' lastID of
               Inl err \<Rightarrow>
                 respond d' 500 (Error ''Failed to fetch created task'') [ran e d q1, ran e d' q2]
             | Inr row \<Rightarrow> respond d' 201 (TaskRow row) [ran e d q1, ran e d' q2]))"

text \<open>\<open>PUT /tasks/:id\<close>\<close>

definition put_tasks :: "env \<Rightarrow> db \<Rightarrow> nat \<Rightarrow> nat \<Rightarrow> jsval \<Rightarrow> jsval \<Rightarrow> jsval \<Rightarrow> response outcome" where
  "put_tasks e d userId taskId ti de st =
     (if \<not> truthy ti then respond d 400 (Error ''Title is required'') []
      else
        let q1 = UpdateTask (str_of ti) (js_or de []) (js_or st ''pending'') taskId userId in
        case update_task e d (str_of ti) (js_or de []) (js_or st ''pending'') taskId userId of
          Inl err \<Rightarrow> respond d 500 (Error ''Failed to update task'') [ran e d q1]
        | Inr (d', changes) \<Rightarrow>
            if changes = 0 then
              respond d' 404 (Error ''Task not found or unauthorized'') [ran e d q1]
            else
              let q2 = SelectTaskById taskId in
              (case select_task_by_id e d' taskId of
                 Inl err \<Rightarrow>
                   respond d' 500 (Error ''Failed to fetch updated task'') [ran e d q1, ran e d' q2]
               | Inr row \<Rightarrow> respond d' 200 (TaskRow row) [ran e d q1, ran e d' q2]))"

text \<open>\<open>DELETE /tasks/:id\<close>\<close>

definition delete_tasks :: "env \<Rightarrow> db \<Rightarrow> nat \<Rightarrow> nat \<Rightarrow> response outcome" where
  "delete_tasks e d userId taskId =
     (let q1 = DeleteTask taskId userId in
      case delete_task e d taskId userId of
        Inl err \<Rightarrow> respond d 500 (Error ''Failed to delete task'') [ran e d q1]
      | Inr (d', changes) \<Rightarrow>
          if changes = 0 then
            respond d' 404 (Error ''Task not found or unauthorized'') [ran e d q1]
          else respond d' 200 (Message ''Task deleted successfully'') [ran e d q1])"

subsection \<open>Predicates on statements and stores\<close>

text \<open>The value that the \<open>WHERE\<close> clause of a statement compares column \<open>user_id\<close> with, if any.\<close>

fun owner_filter :: "stmt \<Rightarrow> nat option" where
  "owner_filter (SelectTasksByUser u) = Some u"
| "owner_filter (UpdateTask ti de st i u) = Some u"
| "owner_filter (DeleteTask i u) = Some u"
| "owner_filter (SelectTaskById i) = None"
| "owner_filter (InsertTask ti de u) = None"
| "owner_filter (SelectUserByEmail em) = None"
| "owner_filter (InsertUser em pw) = None"

text \<open>The statements that read, update or delete task rows.\<close>

fun on_task_rows :: "stmt \<Rightarrow> bool" where
  "on_task_rows (SelectTasksByUser u) = True"
| "on_task_rows (SelectTaskById i) = True"
| "on_task_rows (UpdateTask ti de st i u) = True"
| "on_task_rows (DeleteTask i u) = True"
| "on_task_rows (InsertTask ti de u) = False"
| "on_task_rows (SelectUserByEmail em) = False"
| "on_task_rows (InsertUser em pw) = False"

text \<open>\<open>PRIMARY KEY\<close> on \<open>tasks.id\<close>: no two task rows share an id.\<close>

definition wf_db :: "db \<Rightarrow> bool" where
  "wf_db d = distinct (map task_id (tasks d))"

text \<open>The status enumeration of the specification.\<close>

definition status_ok :: "db \<Rightarrow> bool" where
  "status_ok d = (\<forall>t \<in> set (tasks d). status t = ''pending'' \<or> status t = ''completed'')"

text \<open>The store with no task row of the given id.\<close>

definition without_task :: "db \<Rightarrow> nat \<Rightarrow> db" where
  "without_task d i = d\<lparr>tasks := filter (\<lambda>t. task_id t \<noteq> i) (tasks d)\<rparr>"

text \<open>The stores the server can be in: the empty database, and what a request leaves behind.\<close>

inductive reachable :: "db \<Rightarrow> bool" where
  reachable_empty: "reachable empty_db"
| reachable_signup: "reachable d \<Longrightarrow> reachable (store (signup e d em pw))"
| reachable_login: "reachable d \<Longrightarrow> reachable (store (login e d em pw))"
| reachable_get: "reachable d \<Longrightarrow> reachable (store (get_tasks e d userId))"
| reachable_post: "reachable d \<Longrightarrow> reachable (store (post_tasks e d userId ti de))"
| reachable_put: "reachable d \<Longrightarrow> reachable (store (put_tasks e d userId taskId ti de st))"
| reachable_delete: "reachable d \<Longrightarrow> reachable (store (delete_tasks e d userId taskId))"

subsection \<open>A sample run\<close>

text \<open>
  An engine that never fails, at two instants, with a stand-in for bcrypt; two accounts
  and three tasks created through the routes.
\<close>

definition demo_env :: env where
  "demo_env = \<lparr>now = 1000, fails = (\<lambda>s. False),
     bcrypt_hash = (\<lambda>p. ''$2a$10$'' @ p),
     bcrypt_compare = (\<lambda>p h. h = ''$2a$10$'' @ p)\<rparr>"

definition later_env :: env where
  "later_env = demo_env\<lparr>now := 2000\<rparr>"

definition db_a :: db where
  "db_a = store (signup demo_env empty_db (JStr ''a@x.com'') (JStr ''secret1''))"

definition db_ab :: db where
  "db_ab = store (signup demo_env db_a (JStr ''b@x.com'') (JStr ''secret2''))"

definition db_one :: db where
  "db_one = store (post_tasks demo_env db_ab 1 (JStr ''Buy milk'') JUndefined)"

definition db_two :: db where
  "db_two = store (post_tasks later_env db_one 2 (JStr ''Pay rent'') (JStr ''by Friday''))"

definition db_three :: db where
  "db_three = store (post_tasks later_env db_two 1 (JStr ''Call home'') JUndefined)"

definition db_done :: db where
  "db_done = store (put_tasks later_env db_three 1 1
                      (JStr ''Buy milk'') (JStr ''2 litres'') (JStr ''completed''))"

definition broken_env :: env where
  "broken_env = demo_env\<lparr>fails := (\<lambda>s. True)\<rparr>"

definition user_a :: user where
  "user_a = \<lparr>user_row_id = 1, email = ''a@x.com'', password = ''$2a$10$secret1'',
             user_created_at = 1000\<rparr>"

definition user_b :: user where
  "user_b = \<lparr>user_row_id = 2, email = ''b@x.com'', password = ''$2a$10$secret2'',
             user_created_at = 1000\<rparr>"

definition task_one :: task where
  "task_one = \<lparr>task_id = 1, title = ''Buy milk'', description = [], status = ''pending'',
               user_id = 1, created_at = 1000, updated_at = 1000\<rparr>"

definition task_done :: task where
  "task_done = \<lparr>task_id = 1, title = ''Buy milk'', description = ''2 litres'',
                status = ''completed'', user_id = 1, created_at = 1000, updated_at = 2000\<rparr>"

definition task_two :: task where
  "task_two = \<lparr>task_id = 2, title = ''Pay rent'', description = ''by Friday'',
               status = ''pending'', user_id = 2, created_at = 2000, updated_at = 2000\<rparr>"

definition task_three :: task where
  "task_three = \<lparr>task_id = 3, title = ''Call home'', description = [], status = ''pending'',
                 user_id = 1, created_at = 2000, updated_at = 2000\<rparr>"

section \<open>Basic facts\<close>

lemmas route_defs =
  signup_def login_def get_tasks_def post_tasks_def put_tasks_def delete_tasks_def

lemmas prim_defs =
  select_user_by_email_def insert_user_def select_tasks_by_user_def insert_task_def
  select_task_by_id_def update_task_def delete_task_def touched_def ran_def respond_def
  new_task_def next_rowid_def js_or_def jwt_sign_def Let_def

lemmas demo_rows =
  user_a_def user_b_def task_one_def task_two_def task_three_def task_done_def

lemma db_a_eq: "db_a = \<lparr>users = [user_a], tasks = [], users_seq = 1, tasks_seq = 0\<rparr>"
  by (simp add: db_a_def demo_env_def empty_db_def demo_rows route_defs prim_defs)

lemma db_ab_eq: "db_ab = \<lparr>users = [user_a, user_b], tasks = [], users_seq = 2, tasks_seq = 0\<rparr>"
  by (simp add: db_ab_def db_a_eq demo_env_def demo_rows route_defs prim_defs)

lemma db_one_eq:
  "db_one = \<lparr>users = [user_a, user_b], tasks = [task_one], users_seq = 2, tasks_seq = 1\<rparr>"
  by (simp add: db_one_def db_ab_eq demo_env_def demo_rows route_defs prim_defs)

lemma db_two_eq:
  "db_two = \<lparr>users = [user_a, user_b], tasks = [task_one, task_two],
             users_seq = 2, tasks_seq = 2\<rparr>"
  by (simp add: db_two_def db_one_eq later_env_def demo_env_def demo_rows route_defs prim_defs)

lemma db_three_eq:
  "db_three = \<lparr>users = [user_a, user_b], tasks = [task_one, task_two, task_three],
               users_seq = 2, tasks_seq = 3\<rparr>"
  by (simp add: db_three_def db_two_eq later_env_def demo_env_def demo_rows route_defs prim_defs)

lemma db_done_eq:
  "db_done = \<lparr>users = [user_a, user_b], tasks = [task_done, task_two, task_three],
              users_seq = 2, tasks_seq = 3\<rparr>"
  by (simp add: db_done_def db_three_eq later_env_def demo_env_def demo_rows route_defs prim_defs)

lemma task_where_pred:
  "task_where (SelectTasksByUser u) = (\<lambda>t. user_id t = u)"
  "task_where (SelectTaskById i) = (\<lambda>t. task_id t = i)"
  "task_where (UpdateTask ti de st i u) = (\<lambda>t. task_id t = i \<and> user_id t = u)"
  "task_where (DeleteTask i u) = (\<lambda>t. task_id t = i \<and> user_id t = u)"
  by (simp_all add: fun_eq_iff)

subsection \<open>Fresh row ids\<close>

lemma fold_max_ge_init: "(a::nat) \<le> fold max xs a"
proof (induction xs arbitrary: a)
  case Nil
  show ?case by simp
next
  case (Cons x xs)
  have "a \<le> max x a" by simp
  also have "max x a \<le> fold max xs (max x a)" by (rule Cons.IH)
  finally show ?case by simp
qed

lemma fold_max_ge_elem: "(x::nat) \<in> set xs \<Longrightarrow> x \<le> fold max xs a"
proof (induction xs arbitrary: a)
  case Nil
  then show ?case by simp
next
  case (Cons y ys)
  show ?case
  proof (cases "x = y")
    case True
    have "x \<le> max y a" using True by simp
    also have "max y a \<le> fold max ys (max y a)" by (rule fold_max_ge_init)
    finally show ?thesis by simp
  next
    case False
    with Cons.prems have "x \<in> set ys" by simp
    then show ?thesis using Cons.IH by simp
  qed
qed

lemma next_rowid_fresh: "i \<in> set ids \<Longrightarrow> i < next_rowid ids seq"
  using fold_max_ge_elem [of i ids 0] by (simp add: next_rowid_def)

lemma new_task_id_fresh:
  "t \<in> set (tasks d) \<Longrightarrow> task_id t \<noteq> task_id (new_task e d ti de u)"
  using next_rowid_fresh [of "task_id t" "map task_id (tasks d)" "tasks_seq d"]
  by (simp add: new_task_def)

lemma find_fresh_append:
  assumes "\<forall>t \<in> set xs. \<not> P t" and "P x"
  shows "find P (xs @ [x]) = Some x"
  using assms by (induction xs) auto

lemma distinct_ids_same_row:
  assumes "distinct (map task_id ts)" and "t \<in> set ts" and "t' \<in> set ts"
    and "task_id t = task_id t'"
  shows "t = t'"
  using assms by (meson distinct_map inj_on_def)

subsection \<open>What each route leaves in the store\<close>

lemma store_login: "store (login e d em pw) = d"
  by (simp add: login_def select_user_by_email_def respond_def answered_def unanswered_def
        Let_def split: sum.splits option.splits)

lemma store_get_tasks: "store (get_tasks e d u) = d"
  by (simp add: get_tasks_def select_tasks_by_user_def respond_def Let_def)

lemma tasks_store_signup: "tasks (store (signup e d em pw)) = tasks d"
  by (simp add: signup_def select_user_by_email_def insert_user_def respond_def Let_def
        split: option.splits)

lemma store_post_tasks:
  "store (post_tasks e d u ti de) =
     (if truthy ti \<and> \<not> fails e (InsertTask (str_of ti) (js_or de []) u)
      then d\<lparr>tasks := tasks d @ [new_task e d (str_of ti) (js_or de []) u],
             tasks_seq := task_id (new_task e d (str_of ti) (js_or de []) u)\<rparr>
      else d)"
  by (simp add: post_tasks_def insert_task_def select_task_by_id_def respond_def Let_def)

lemma store_put_tasks:
  "store (put_tasks e d u i ti de st) =
     (if truthy ti \<and> \<not> fails e (UpdateTask (str_of ti) (js_or de []) (js_or st ''pending'') i u)
      then d\<lparr>tasks := map (\<lambda>t. if task_id t = i \<and> user_id t = u
                                then t\<lparr>title := str_of ti, description := js_or de [],
                                       status := js_or st ''pending'', updated_at := now e\<rparr>
                                else t) (tasks d)\<rparr>
      else d)"
  by (simp add: put_tasks_def update_task_def select_task_by_id_def respond_def Let_def)

lemma store_delete_tasks:
  "store (delete_tasks e d u i) =
     (if fails e (DeleteTask i u) then d
      else d\<lparr>tasks := filter (\<lambda>t. \<not> (task_id t = i \<and> user_id t = u)) (tasks d)\<rparr>)"
  by (simp add: delete_tasks_def delete_task_def respond_def Let_def)

subsection \<open>Row ids stay distinct\<close>

lemma wf_db_post_tasks:
  assumes "wf_db d"
  shows "wf_db (store (post_tasks e d u ti de))"
proof -
  have "task_id (new_task e d (str_of ti) (js_or de []) u) \<notin> task_id ` set (tasks d)"
    using new_task_id_fresh [of _ d e "str_of ti" "js_or de []" u] by fastforce
  then show ?thesis
    using assms by (simp add: wf_db_def store_post_tasks)
qed

lemma task_id_update_rows:
  "map task_id (map (\<lambda>t. if P t then t\<lparr>title := a, description := b, status := c,
                                           updated_at := n\<rparr> else t) ts) = map task_id ts"
  by (induction ts) auto

lemma wf_db_put_tasks:
  assumes "wf_db d"
  shows "wf_db (store (put_tasks e d u i ti de st))"
  using assms by (simp add: wf_db_def store_put_tasks task_id_update_rows del: map_map)

lemma wf_db_delete_tasks: "wf_db d \<Longrightarrow> wf_db (store (delete_tasks e d u i))"
  by (simp add: wf_db_def store_delete_tasks distinct_map_filter)

lemma reachable_wf_db: "reachable d \<Longrightarrow> wf_db d"
proof (induction rule: reachable.induct)
  case reachable_empty
  show ?case by (simp add: wf_db_def empty_db_def)
next
  case (reachable_signup d e em pw)
  then show ?case by (simp add: wf_db_def tasks_store_signup)
next
  case (reachable_login d e em pw)
  then show ?case by (simp add: store_login)
next
  case (reachable_get d e userId)
  then show ?case by (simp add: store_get_tasks)
next
  case (reachable_post d e userId ti de)
  then show ?case by (simp add: wf_db_post_tasks)
next
  case (reachable_put d e userId taskId ti de st)
  then show ?case by (simp add: wf_db_put_tasks)
next
  case (reachable_delete d e userId taskId)
  then show ?case by (simp add: wf_db_delete_tasks)
qed

lemma reachable_db_three: "reachable db_three"
  unfolding db_three_def db_two_def db_one_def db_ab_def db_a_def
  by (intro reachable.intros)

subsection \<open>When an update succeeds\<close>

lemma put_tasks_200:
  assumes "http_status (reply (put_tasks e d uid tid ti de st)) = 200"
  shows "truthy ti"
    and "\<not> fails e (UpdateTask (str_of ti) (js_or de []) (js_or st ''pending'') tid uid)"
    and "filter (\<lambda>t. task_id t = tid \<and> user_id t = uid) (tasks d) \<noteq> []"
    and "\<not> fails e (SelectTaskById tid)"
proof -
  show 1: "truthy ti"
    using assms by (cases "truthy ti") (simp_all add: put_tasks_def respond_def)
  show 2: "\<not> fails e (UpdateTask (str_of ti) (js_or de []) (js_or st ''pending'') tid uid)"
    using assms 1 by (auto simp add: put_tasks_def update_task_def respond_def Let_def)
  show 3: "filter (\<lambda>t. task_id t = tid \<and> user_id t = uid) (tasks d) \<noteq> []"
    using assms 1 2
    by (auto simp add: put_tasks_def update_task_def respond_def Let_def task_where_pred)
  show "\<not> fails e (SelectTaskById tid)"
    using assms 1 2 3
    by (auto simp add: put_tasks_def update_task_def select_task_by_id_def respond_def Let_def
          task_where_pred)
qed

lemma demo_put_200:
  "http_status (reply (put_tasks later_env db_three 1 1 (JStr ''Buy milk'') JUndefined st)) = 200"
  by (simp add: db_three_eq later_env_def demo_env_def demo_rows put_tasks_def prim_defs)

subsection \<open>Requests that match no row\<close>

lemma update_rows_no_match:
  assumes "\<forall>x \<in> set ts. \<not> P x"
  shows "map (\<lambda>t. if P t then f t else t) ts = ts"
  using assms by (induction ts) auto

lemma put_tasks_no_match:
  assumes "\<forall>x \<in> set (tasks d). \<not> (task_id x = i \<and> user_id x = u)"
  shows "store (put_tasks e d u i ti de st) = d"
    and "reply (put_tasks e d u i ti de st) =
      (if \<not> truthy ti then \<lparr>http_status = 400, body = Error ''Title is required''\<rparr>
       else if fails e (UpdateTask (str_of ti) (js_or de []) (js_or st ''pending'') i u)
       then \<lparr>http_status = 500, body = Error ''Failed to update task''\<rparr>
       else \<lparr>http_status = 404, body = Error ''Task not found or unauthorized''\<rparr>)"
proof -
  have n: "filter (\<lambda>t. task_id t = i \<and> user_id t = u) (tasks d) = []"
    using assms by (simp add: filter_empty_conv)
  show "store (put_tasks e d u i ti de st) = d"
    using update_rows_no_match [OF assms] by (simp add: store_put_tasks)
  show "reply (put_tasks e d u i ti de st) =
      (if \<not> truthy ti then \<lparr>http_status = 400, body = Error ''Title is required''\<rparr>
       else if fails e (UpdateTask (str_of ti) (js_or de []) (js_or st ''pending'') i u)
       then \<lparr>http_status = 500, body = Error ''Failed to update task''\<rparr>
       else \<lparr>http_status = 404, body = Error ''Task not found or unauthorized''\<rparr>)"
    using n by (simp add: put_tasks_def update_task_def respond_def Let_def task_where_pred)
qed

lemma delete_tasks_no_match:
  assumes "\<forall>x \<in> set (tasks d). \<not> (task_id x = i \<and> user_id x = u)"
  shows "store (delete_tasks e d u i) = d"
    and "reply (delete_tasks e d u i) =
      (if fails e (DeleteTask i u)
       then \<lparr>http_status = 500, body = Error ''Failed to delete task''\<rparr>
       else \<lparr>http_status = 404, body = Error ''Task not found or unauthorized''\<rparr>)"
proof -
  have n: "filter (\<lambda>t. task_id t = i \<and> user_id t = u) (tasks d) = []"
    using assms by (simp add: filter_empty_conv)
  have k: "filter (\<lambda>t. \<not> (task_id t = i \<and> user_id t = u)) (tasks d) = tasks d"
    using assms by (simp add: filter_id_conv)
  show "store (delete_tasks e d u i) = d"
    using k by (simp add: store_delete_tasks)
  show "reply (delete_tasks e d u i) =
      (if fails e (DeleteTask i u)
       then \<lparr>http_status = 500, body = Error ''Failed to delete task''\<rparr>
       else \<lparr>http_status = 404, body = Error ''Task not found or unauthorized''\<rparr>)"
    using n by (simp add: delete_tasks_def delete_task_def respond_def Let_def task_where_pred)
qed

lemma other_owner_no_match:
  assumes "wf_db d" and "t \<in> set (tasks d)" and "user_id t \<noteq> u"
  shows "\<forall>x \<in> set (tasks d). \<not> (task_id x = task_id t \<and> user_id x = u)"
proof (intro ballI notI)
  fix x
  assume x: "x \<in> set (tasks d)" and m: "task_id x = task_id t \<and> user_id x = u"
  have "x = t"
    using assms(1) x assms(2) m unfolding wf_db_def by (blast intro: distinct_ids_same_row)
  with m assms(3) show False by simp
qed

lemma without_task_no_match:
  "\<forall>x \<in> set (tasks (without_task d i)). \<not> (task_id x = i \<and> user_id x = u)"
  by (simp add: without_task_def)

subsection \<open>The statements a task route runs\<close>

lemma trace_get_tasks: "trace (get_tasks e d u) = [ran e d (SelectTasksByUser u)]"
  by (simp add: get_tasks_def select_tasks_by_user_def respond_def Let_def)

lemma trace_delete_tasks: "trace (delete_tasks e d u i) = [ran e d (DeleteTask i u)]"
  by (simp add: delete_tasks_def delete_task_def respond_def Let_def)

lemma trace_post_tasks:
  "trace (post_tasks e d u ti de) =
     (if \<not> truthy ti then []
      else if fails e (InsertTask (str_of ti) (js_or de []) u)
      then [ran e d (InsertTask (str_of ti) (js_or de []) u)]
      else [ran e d (InsertTask (str_of ti) (js_or de []) u),
            ran e (store (post_tasks e d u ti de))
              (SelectTaskById (task_id (new_task e d (str_of ti) (js_or de []) u)))])"
  by (simp add: post_tasks_def insert_task_def select_task_by_id_def respond_def Let_def)

lemma trace_put_tasks:
  "trace (put_tasks e d u i ti de st) =
     (if \<not> truthy ti then []
      else if fails e (UpdateTask (str_of ti) (js_or de []) (js_or st ''pending'') i u)
            \<or> filter (\<lambda>t. task_id t = i \<and> user_id t = u) (tasks d) = []
      then [ran e d (UpdateTask (str_of ti) (js_or de []) (js_or st ''pending'') i u)]
      else [ran e d (UpdateTask (str_of ti) (js_or de []) (js_or st ''pending'') i u),
            ran e (store (put_tasks e d u i ti de st)) (SelectTaskById i)])"
  by (simp add: put_tasks_def update_task_def select_task_by_id_def respond_def Let_def
        task_where_pred)

lemma touched_owner_filter:
  assumes "owner_filter s = Some u"
  shows "\<forall>r \<in> set (touched e d s). user_id r = u"
  using assms by (cases s) (simp_all add: touched_def)

lemma touched_insert_task: "\<forall>r \<in> set (touched e d (InsertTask ti de u)). user_id r = u"
  by (simp add: touched_def new_task_def)

lemma touched_fetch_created:
  "\<forall>r \<in> set (touched e' (store (post_tasks e d u ti de))
               (SelectTaskById (task_id (new_task e d (str_of ti) (js_or de []) u)))).
     user_id r = u"
proof (intro ballI)
  fix r
  assume "r \<in> set (touched e' (store (post_tasks e d u ti de))
               (SelectTaskById (task_id (new_task e d (str_of ti) (js_or de []) u))))"
  then have r: "r \<in> set (tasks (store (post_tasks e d u ti de)))"
      "task_id r = task_id (new_task e d (str_of ti) (js_or de []) u)"
    by (simp_all add: touched_def split: if_splits)
  from r(1) have "r \<in> set (tasks d) \<or> r = new_task e d (str_of ti) (js_or de []) u"
    by (auto simp add: store_post_tasks split: if_splits)
  with r(2) new_task_id_fresh [of r d e "str_of ti" "js_or de []" u]
  have "r = new_task e d (str_of ti) (js_or de []) u"
    by blast
  then show "user_id r = u"
    by (simp add: new_task_def)
qed

lemma touched_fetch_updated:
  assumes "wf_db d" and "filter (\<lambda>t. task_id t = i \<and> user_id t = u) (tasks d) \<noteq> []"
  shows "\<forall>r \<in> set (touched e' (store (put_tasks e d u i ti de st)) (SelectTaskById i)).
           user_id r = u"
proof (intro ballI)
  fix r
  define upd where "upd = (\<lambda>t::task. if task_id t = i \<and> user_id t = u
                   then t\<lparr>title := str_of ti, description := js_or de [],
                         status := js_or st ''pending'', updated_at := now e\<rparr>
                   else t)"
  have keep: "\<And>x. task_id (upd x) = task_id x \<and> user_id (upd x) = user_id x"
    by (simp add: upd_def)
  have "\<exists>x \<in> set (tasks d). task_id x = i \<and> user_id x = u"
    using assms(2) by (simp add: filter_empty_conv)
  then obtain x where x: "x \<in> set (tasks d)" "task_id x = i" "user_id x = u"
    by blast
  assume "r \<in> set (touched e' (store (put_tasks e d u i ti de st)) (SelectTaskById i))"
  then have r: "r \<in> set (tasks (store (put_tasks e d u i ti de st)))" "task_id r = i"
    by (simp_all add: touched_def split: if_splits)
  have cases: "tasks (store (put_tasks e d u i ti de st)) = tasks d
      \<or> tasks (store (put_tasks e d u i ti de st)) = map upd (tasks d)"
    by (simp add: store_put_tasks upd_def)
  have "\<exists>y \<in> set (tasks d). task_id r = task_id y \<and> user_id r = user_id y"
  proof (rule disjE [OF cases])
    assume "tasks (store (put_tasks e d u i ti de st)) = tasks d"
    with r(1) have "r \<in> set (tasks d)" by simp
    then show ?thesis by (rule_tac x = r in bexI) simp_all
  next
    assume "tasks (store (put_tasks e d u i ti de st)) = map upd (tasks d)"
    with r(1) have "r \<in> upd ` set (tasks d)" by (simp only: set_map)
    then obtain y where yy: "y \<in> set (tasks d)" "r = upd y"
      by blast
    from keep [of y] yy(2) have "task_id r = task_id y \<and> user_id r = user_id y"
      by simp
    with yy(1) show ?thesis by (rule_tac x = y in bexI)
  qed
  then obtain y where y: "y \<in> set (tasks d)" "task_id r = task_id y" "user_id r = user_id y"
    by blast
  have "y = x"
    using assms(1) y(1) x(1) y(2) r(2) x(2) unfolding wf_db_def
    by (intro distinct_ids_same_row [of "tasks d"]) simp_all
  with y(3) x(3) show "user_id r = u" by simp
qed

subsection \<open>Login with a string password\<close>

lemma login_invalid_credentials_strings:
  assumes "truthy em1" and "truthy pw1" and "truthy em2" and "truthy pw2"
    and "\<not> fails e (SelectUserByEmail (str_of em1))"
    and "\<not> fails e (SelectUserByEmail (str_of em2))"
    and "find (\<lambda>u. email u = str_of em1) (users d) = None"
    and "find (\<lambda>u. email u = str_of em2) (users d) = Some u"
    and "\<not> bcrypt_compare e (str_of pw2) (password u)"
  shows "reply (login e d em1 (JVal pw1)) =
           Some \<lparr>http_status = 400, body = Error ''Invalid credentials''\<rparr>
       \<and> reply (login e d em2 (JVal pw2)) =
           Some \<lparr>http_status = 400, body = Error ''Invalid credentials''\<rparr>"
proof -
  from assms(4) obtain p where p: "pw2 = JStr p"
    by (cases pw2) simp_all
  have 1: "reply (login e d em1 (JVal pw1)) =
           Some \<lparr>http_status = 400, body = Error ''Invalid credentials''\<rparr>"
    using assms(1,2,5,7)
    by (simp add: login_def select_user_by_email_def respond_def answered_def)
  have 2: "reply (login e d em2 (JVal pw2)) =
           Some \<lparr>http_status = 400, body = Error ''Invalid credentials''\<rparr>"
    using assms(3,4,6,8,9) p
    by (simp add: login_def select_user_by_email_def respond_def answered_def)
  show ?thesis
    using 1 2 by (rule conjI)
qed

lemma login_string_passwords_demo:
  "reply (login demo_env db_ab (JStr ''c@x.com'') (JVal (JStr ''secret1''))) =
       Some \<lparr>http_status = 400, body = Error ''Invalid credentials''\<rparr>
   \<and> reply (login demo_env db_ab (JStr ''a@x.com'') (JVal (JStr ''wrong-password''))) =
       Some \<lparr>http_status = 400, body = Error ''Invalid credentials''\<rparr>
   \<and> map_option http_status (reply (login demo_env db_ab (JStr ''a@x.com'')
         (JVal (JStr ''secret1'')))) = Some 200"
  by (simp add: demo_env_def db_ab_eq user_a_def user_b_def login_def
        select_user_by_email_def respond_def answered_def)

section \<open>Claims\<close>

subsection \<open>Task routes\<close>

text \<open>
  C1. In a store with distinct row ids (every reachable store is one, lemma
  \<open>reachable_wf_db\<close>), every statement that a task route of account
  \<open>owner\<close> runs reads or writes only task rows whose \<open>user_id\<close> is \<open>owner\<close>. The
  \<open>SELECT\<close> of \<open>GET /tasks\<close>, the \<open>UPDATE\<close> and the \<open>DELETE\<close> compare \<open>user_id\<close>
  with \<open>owner\<close> in their \<open>WHERE\<close> clause; the \<open>INSERT\<close> writes \<open>owner\<close> into the new
  row; the two fetch-back \<open>SELECT\<close>s of \<open>POST\<close> and \<open>PUT\<close> select by \<open>id\<close> alone.
\<close>

theorem task_statements_touch_owner_rows:
  assumes "wf_db d"
  shows "(\<forall>(s, rows) \<in> set (trace (get_tasks e d owner)).
            owner_filter s = Some owner \<and> (\<forall>r \<in> set rows. user_id r = owner))
       \<and> (\<forall>(s, rows) \<in> set (trace (delete_tasks e d owner i)).
            owner_filter s = Some owner \<and> (\<forall>r \<in> set rows. user_id r = owner))
       \<and> (\<forall>(s, rows) \<in> set (trace (put_tasks e d owner i ti de st)).
            (owner_filter s = Some owner \<or> s = SelectTaskById i)
            \<and> (\<forall>r \<in> set rows. user_id r = owner))
       \<and> (\<forall>(s, rows) \<in> set (trace (post_tasks e d owner ti de)).
            (s = InsertTask (str_of ti) (js_or de []) owner \<or> (\<exists>j. s = SelectTaskById j))
            \<and> (\<forall>r \<in> set rows. user_id r = owner))"
proof -
  let ?sel = "SelectTasksByUser owner"
  let ?del = "DeleteTask i owner"
  let ?upd = "UpdateTask (str_of ti) (js_or de []) (js_or st ''pending'') i owner"
  let ?ins = "InsertTask (str_of ti) (js_or de []) owner"
  have tsel: "\<forall>r \<in> set (touched e d ?sel). user_id r = owner"
    by (rule touched_owner_filter) simp
  have tdel: "\<forall>r \<in> set (touched e d ?del). user_id r = owner"
    by (rule touched_owner_filter) simp
  have tupd: "\<forall>r \<in> set (touched e d ?upd). user_id r = owner"
    by (rule touched_owner_filter) simp
  have tins: "\<forall>r \<in> set (touched e d ?ins). user_id r = owner"
    by (rule touched_insert_task)
  have g: "\<forall>(s, rows) \<in> set (trace (get_tasks e d owner)).
            owner_filter s = Some owner \<and> (\<forall>r \<in> set rows. user_id r = owner)"
    unfolding trace_get_tasks ran_def using tsel by simp
  have x: "\<forall>(s, rows) \<in> set (trace (delete_tasks e d owner i)).
            owner_filter s = Some owner \<and> (\<forall>r \<in> set rows. user_id r = owner)"
    unfolding trace_delete_tasks ran_def using tdel by simp
  have u: "\<forall>(s, rows) \<in> set (trace (put_tasks e d owner i ti de st)).
            (owner_filter s = Some owner \<or> s = SelectTaskById i)
            \<and> (\<forall>r \<in> set rows. user_id r = owner)"
  proof (cases "truthy ti")
    case False
    then show ?thesis by (simp add: trace_put_tasks)
  next
    case True
    show ?thesis
    proof (cases "fails e ?upd
        \<or> filter (\<lambda>t. task_id t = i \<and> user_id t = owner) (tasks d) = []")
      case True
      with \<open>truthy ti\<close> have "trace (put_tasks e d owner i ti de st) = [(?upd, touched e d ?upd)]"
        by (simp add: trace_put_tasks ran_def)
      then show ?thesis using tupd by simp
    next
      case False
      then have m: "filter (\<lambda>t. task_id t = i \<and> user_id t = owner) (tasks d) \<noteq> []"
        by simp
      have tf: "\<forall>r \<in> set (touched e (store (put_tasks e d owner i ti de st))
                           (SelectTaskById i)). user_id r = owner"
        by (rule touched_fetch_updated [OF assms m])
      from False \<open>truthy ti\<close> have "trace (put_tasks e d owner i ti de st) =
          [(?upd, touched e d ?upd),
           (SelectTaskById i,
            touched e (store (put_tasks e d owner i ti de st)) (SelectTaskById i))]"
        by (simp add: trace_put_tasks ran_def)
      then show ?thesis using tupd tf by simp
    qed
  qed
  have p: "\<forall>(s, rows) \<in> set (trace (post_tasks e d owner ti de)).
            (s = InsertTask (str_of ti) (js_or de []) owner \<or> (\<exists>j. s = SelectTaskById j))
            \<and> (\<forall>r \<in> set rows. user_id r = owner)"
  proof (cases "truthy ti")
    case False
    then show ?thesis by (simp add: trace_post_tasks)
  next
    case True
    show ?thesis
    proof (cases "fails e ?ins")
      case True
      with \<open>truthy ti\<close> have "trace (post_tasks e d owner ti de) = [(?ins, touched e d ?ins)]"
        by (simp add: trace_post_tasks ran_def)
      then show ?thesis using tins by simp
    next
      case False
      let ?q = "SelectTaskById (task_id (new_task e d (str_of ti) (js_or de []) owner))"
      have tf: "\<forall>r \<in> set (touched e (store (post_tasks e d owner ti de)) ?q). user_id r = owner"
        by (rule touched_fetch_created)
      from False \<open>truthy ti\<close> have "trace (post_tasks e d owner ti de) =
          [(?ins, touched e d ?ins), (?q, touched e (store (post_tasks e d owner ti de)) ?q)]"
        by (simp add: trace_post_tasks ran_def)
      then show ?thesis using tins tf by simp
    qed
  qed
  show ?thesis
    using g x u p by (intro conjI)
qed

theorem task_statements_touch_owner_rows_witness:
  "wf_db db_three
   \<and> trace (put_tasks later_env db_three 1 1 (JStr ''Buy milk'') (JStr ''2 litres'')
        (JStr ''completed'')) =
        [(UpdateTask ''Buy milk'' ''2 litres'' ''completed'' 1 1, [task_one]),
         (SelectTaskById 1, [task_done])]
   \<and> user_id task_one = 1 \<and> user_id task_done = 1
   \<and> trace (delete_tasks later_env db_three 1 3) = [(DeleteTask 3 1, [task_three])]
   \<and> owner_filter (DeleteTask 3 1) = Some 1 \<and> user_id task_three = 1"
proof -
  let ?put = "put_tasks later_env db_three 1 1 (JStr ''Buy milk'') (JStr ''2 litres'')
        (JStr ''completed'')"
  let ?del = "delete_tasks later_env db_three 1 3"
  have h: "wf_db db_three"
    by (simp add: wf_db_def db_three_eq demo_rows)
  have tp: "trace ?put =
        [(UpdateTask ''Buy milk'' ''2 litres'' ''completed'' 1 1, [task_one]),
         (SelectTaskById 1, [task_done])]"
    by (simp add: db_three_eq later_env_def demo_env_def demo_rows put_tasks_def prim_defs)
  have td: "trace ?del = [(DeleteTask 3 1, [task_three])]"
    by (simp add: db_three_eq later_env_def demo_env_def demo_rows delete_tasks_def prim_defs)
  note c = task_statements_touch_owner_rows [OF h, where e = later_env and owner = 1]
  note d = c [where i = 3, THEN conjunct2, THEN conjunct1]
  note u = c [where i = 1 and ti = "JStr ''Buy milk''" and de = "JStr ''2 litres''"
      and st = "JStr ''completed''", THEN conjunct2, THEN conjunct2, THEN conjunct1]
  from d have 1: "owner_filter (DeleteTask 3 1) = Some 1 \<and> user_id task_three = 1"
    unfolding td by simp
  from u have 2: "user_id task_one = 1 \<and> user_id task_done = 1"
    unfolding tp by simp
  show ?thesis
    using h tp td 1 2 by (intro conjI) simp_all
qed

theorem fetch_back_without_owner_filter_counterexample:
  "map fst (trace (put_tasks later_env db_three 1 1 (JStr ''Buy milk'') JUndefined JUndefined)) =
      [UpdateTask ''Buy milk'' [] ''pending'' 1 1, SelectTaskById 1]
   \<and> map fst (trace (post_tasks later_env db_two 1 (JStr ''Call home'') JUndefined)) =
      [InsertTask ''Call home'' [] 1, SelectTaskById 3]
   \<and> on_task_rows (SelectTaskById 1) \<and> owner_filter (SelectTaskById 1) = None
   \<and> on_task_rows (SelectTaskById 3) \<and> owner_filter (SelectTaskById 3) = None"
  by (simp add: db_three_eq db_two_eq later_env_def demo_env_def demo_rows
        put_tasks_def post_tasks_def prim_defs)

text \<open>
  C2. Let a task row belong to an account other than \<open>B\<close>, in a store with distinct
  row ids (every reachable store is one, lemma \<open>reachable_wf_db\<close>). Then \<open>PUT\<close> and \<open>DELETE\<close> of \<open>B\<close> on that id leave the whole store as it
  was and answer exactly as they answer on the store without that row; the status is
  never 200. The answer is 404 \<open>Task not found or unauthorized\<close> when the engine runs
  the statement and, for \<open>PUT\<close>, the title is non-empty; a \<open>PUT\<close> with an empty or
  missing title is answered 400 \<open>Title is required\<close>. \<open>GET /tasks\<close> of \<open>B\<close> never
  lists the row.
\<close>

theorem other_account_sees_not_found:
  assumes "wf_db d" and "t \<in> set (tasks d)" and "user_id t \<noteq> B"
  shows "store (put_tasks e d B (task_id t) ti de st) = d
       \<and> reply (put_tasks e d B (task_id t) ti de st) =
           reply (put_tasks e (without_task d (task_id t)) B (task_id t) ti de st)
       \<and> http_status (reply (put_tasks e d B (task_id t) ti de st)) \<noteq> 200
       \<and> (truthy ti \<and> \<not> fails e (UpdateTask (str_of ti) (js_or de []) (js_or st ''pending'')
                                    (task_id t) B) \<longrightarrow>
            reply (put_tasks e d B (task_id t) ti de st) =
              \<lparr>http_status = 404, body = Error ''Task not found or unauthorized''\<rparr>)
       \<and> (\<not> truthy ti \<longrightarrow>
            reply (put_tasks e d B (task_id t) ti de st) =
              \<lparr>http_status = 400, body = Error ''Title is required''\<rparr>)
       \<and> store (delete_tasks e d B (task_id t)) = d
       \<and> reply (delete_tasks e d B (task_id t)) =
           reply (delete_tasks e (without_task d (task_id t)) B (task_id t))
       \<and> http_status (reply (delete_tasks e d B (task_id t))) \<noteq> 200
       \<and> (\<not> fails e (DeleteTask (task_id t) B) \<longrightarrow>
            reply (delete_tasks e d B (task_id t)) =
              \<lparr>http_status = 404, body = Error ''Task not found or unauthorized''\<rparr>)
       \<and> (\<forall>rows. body (reply (get_tasks e d B)) = TaskRows rows \<longrightarrow> t \<notin> set rows)"
proof -
  note n = other_owner_no_match [OF assms]
  note w = without_task_no_match [of d "task_id t" B]
  have p1: "store (put_tasks e d B (task_id t) ti de st) = d"
    by (rule put_tasks_no_match(1) [OF n])
  have p2: "reply (put_tasks e d B (task_id t) ti de st) =
           reply (put_tasks e (without_task d (task_id t)) B (task_id t) ti de st)"
    by (simp only: put_tasks_no_match(2) [OF n] put_tasks_no_match(2) [OF w])
  have p3: "http_status (reply (put_tasks e d B (task_id t) ti de st)) \<noteq> 200"
    by (simp add: put_tasks_no_match(2) [OF n])
  have p4: "truthy ti \<and> \<not> fails e (UpdateTask (str_of ti) (js_or de []) (js_or st ''pending'')
                                    (task_id t) B) \<longrightarrow>
            reply (put_tasks e d B (task_id t) ti de st) =
              \<lparr>http_status = 404, body = Error ''Task not found or unauthorized''\<rparr>"
    by (simp add: put_tasks_no_match(2) [OF n])
  have p5: "\<not> truthy ti \<longrightarrow>
            reply (put_tasks e d B (task_id t) ti de st) =
              \<lparr>http_status = 400, body = Error ''Title is required''\<rparr>"
    by (simp add: put_tasks_no_match(2) [OF n])
  have d1: "store (delete_tasks e d B (task_id t)) = d"
    by (rule delete_tasks_no_match(1) [OF n])
  have d2: "reply (delete_tasks e d B (task_id t)) =
           reply (delete_tasks e (without_task d (task_id t)) B (task_id t))"
    by (simp only: delete_tasks_no_match(2) [OF n] delete_tasks_no_match(2) [OF w])
  have d3: "http_status (reply (delete_tasks e d B (task_id t))) \<noteq> 200"
    by (simp add: delete_tasks_no_match(2) [OF n])
  have d4: "\<not> fails e (DeleteTask (task_id t) B) \<longrightarrow>
            reply (delete_tasks e d B (task_id t)) =
              \<lparr>http_status = 404, body = Error ''Task not found or unauthorized''\<rparr>"
    by (simp add: delete_tasks_no_match(2) [OF n])
  have l: "\<forall>rows. body (reply (get_tasks e d B)) = TaskRows rows \<longrightarrow> t \<notin> set rows"
    using assms(3)
    by (auto simp add: get_tasks_def select_tasks_by_user_def respond_def Let_def
          task_where_pred)
  show ?thesis
    using p1 p2 p3 p4 p5 d1 d2 d3 d4 l by (intro conjI)
qed

theorem other_account_sees_not_found_witness:
  "wf_db db_three \<and> task_one \<in> set (tasks db_three) \<and> user_id task_one \<noteq> 2
   \<and> reply (put_tasks demo_env db_three 2 (task_id task_one) (JStr ''Mine now'') JUndefined
        (JStr ''completed'')) =
        \<lparr>http_status = 404, body = Error ''Task not found or unauthorized''\<rparr>
   \<and> store (put_tasks demo_env db_three 2 (task_id task_one) (JStr ''Mine now'') JUndefined
        (JStr ''completed'')) = db_three
   \<and> reply (delete_tasks demo_env db_three 2 (task_id task_one)) =
        \<lparr>http_status = 404, body = Error ''Task not found or unauthorized''\<rparr>
   \<and> store (delete_tasks demo_env db_three 2 (task_id task_one)) = db_three
   \<and> body (reply (get_tasks demo_env db_three 2)) = TaskRows [task_two]"
proof -
  have h: "wf_db db_three" "task_one \<in> set (tasks db_three)" "user_id task_one \<noteq> 2"
    by (simp_all add: wf_db_def db_three_eq demo_rows)
  have f: "truthy (JStr ''Mine now'')"
      "\<not> fails demo_env (UpdateTask (str_of (JStr ''Mine now'')) (js_or JUndefined [])
           (js_or (JStr ''completed'') ''pending'') (task_id task_one) 2)"
      "\<not> fails demo_env (DeleteTask (task_id task_one) 2)"
    by (simp_all add: demo_env_def)
  have g: "body (reply (get_tasks demo_env db_three 2)) = TaskRows [task_two]"
    by (simp add: db_three_eq demo_env_def demo_rows get_tasks_def prim_defs)
  note c = other_account_sees_not_found [OF h, of demo_env "JStr ''Mine now''" JUndefined
      "JStr ''completed''"]
  from c f have 1: "reply (put_tasks demo_env db_three 2 (task_id task_one) (JStr ''Mine now'')
        JUndefined (JStr ''completed'')) =
        \<lparr>http_status = 404, body = Error ''Task not found or unauthorized''\<rparr>"
    by blast
  from c f have 2: "reply (delete_tasks demo_env db_three 2 (task_id task_one)) =
        \<lparr>http_status = 404, body = Error ''Task not found or unauthorized''\<rparr>"
    by blast
  from c have 3: "store (put_tasks demo_env db_three 2 (task_id task_one) (JStr ''Mine now'')
        JUndefined (JStr ''completed'')) = db_three"
    by blast
  from c have 4: "store (delete_tasks demo_env db_three 2 (task_id task_one)) = db_three"
    by blast
  show ?thesis
    using h 1 2 3 4 g by (intro conjI)
qed

theorem other_account_empty_title_counterexample:
  "task_one \<in> set (tasks db_three) \<and> user_id task_one = 1
   \<and> reply (put_tasks demo_env db_three 2 (task_id task_one) (JStr []) JUndefined JUndefined) =
        \<lparr>http_status = 400, body = Error ''Title is required''\<rparr>"
  by (simp add: db_three_eq demo_rows put_tasks_def respond_def)

text \<open>
  C3. Every route keeps the property that each task's status is \<open>pending\<close> or
  \<open>completed\<close>, for all inputs, except \<open>PUT /tasks/:id\<close>, which keeps it when the
  status of the request is absent, \<open>null\<close>, empty, \<open>pending\<close> or \<open>completed\<close>: the
  route stores any other non-empty status as it is. The empty database has the property.
\<close>

theorem status_ok_preserved:
  assumes "status_ok d"
  shows "status_ok empty_db
       \<and> status_ok (store (post_tasks e d u ti de))
       \<and> (st \<in> {JUndefined, JNull, JStr [], JStr ''pending'', JStr ''completed''} \<longrightarrow>
            status_ok (store (put_tasks e d u i ti de st)))
       \<and> status_ok (store (delete_tasks e d u i))
       \<and> status_ok (store (signup e d em pw))
       \<and> status_ok (store (login e d em lpw))
       \<and> status_ok (store (get_tasks e d u))"
proof -
  have 0: "status_ok empty_db"
    by (simp add: status_ok_def empty_db_def)
  have 1: "status_ok (store (post_tasks e d u ti de))"
    using assms by (simp add: status_ok_def store_post_tasks new_task_def)
  have 2: "st \<in> {JUndefined, JNull, JStr [], JStr ''pending'', JStr ''completed''} \<longrightarrow>
            status_ok (store (put_tasks e d u i ti de st))"
  proof
    assume "st \<in> {JUndefined, JNull, JStr [], JStr ''pending'', JStr ''completed''}"
    then have "js_or st ''pending'' = ''pending'' \<or> js_or st ''pending'' = ''completed''"
      by (auto simp add: js_or_def)
    then show "status_ok (store (put_tasks e d u i ti de st))"
      using assms by (auto simp add: status_ok_def store_put_tasks)
  qed
  have 3: "status_ok (store (delete_tasks e d u i))"
    using assms by (simp add: status_ok_def store_delete_tasks)
  have 4: "status_ok (store (signup e d em pw))"
    using assms by (simp add: status_ok_def tasks_store_signup)
  have 5: "status_ok (store (login e d em lpw))"
    using assms by (simp add: store_login)
  have 6: "status_ok (store (get_tasks e d u))"
    using assms by (simp add: store_get_tasks)
  show ?thesis
    using 0 1 2 3 4 5 6 by (intro conjI)
qed

theorem status_ok_preserved_witness:
  "status_ok db_three
   \<and> JStr ''completed'' \<in> {JUndefined, JNull, JStr [], JStr ''pending'', JStr ''completed''}
   \<and> status_ok (store (put_tasks later_env db_three 1 1
        (JStr ''Buy milk'') (JStr ''2 litres'') (JStr ''completed'')))
   \<and> map status (tasks (store (put_tasks later_env db_three 1 1
        (JStr ''Buy milk'') (JStr ''2 litres'') (JStr ''completed'')))) =
        [''completed'', ''pending'', ''pending'']
   \<and> status_ok (store (post_tasks later_env db_three 2 (JStr ''Water plants'') JNull))"
proof -
  have h: "status_ok db_three"
    by (simp add: status_ok_def db_three_eq demo_rows)
  have m: "JStr ''completed'' \<in> {JUndefined, JNull, JStr [], JStr ''pending'', JStr ''completed''}"
    by simp
  have v: "map status (tasks db_done) = [''completed'', ''pending'', ''pending'']"
    by (simp add: db_done_eq demo_rows)
  note c = status_ok_preserved [OF h, of later_env _ _ _ "JStr ''completed''"]
  from c [of 2 "JStr ''Water plants''" JNull]
  have 1: "status_ok (store (post_tasks later_env db_three 2 (JStr ''Water plants'') JNull))"
    by blast
  from c [of 1 "JStr ''Buy milk''" "JStr ''2 litres''" 1] m
  have 2: "status_ok (store (put_tasks later_env db_three 1 1
        (JStr ''Buy milk'') (JStr ''2 litres'') (JStr ''completed'')))"
    by blast
  show ?thesis
    using h m 1 2 v unfolding db_done_def by (intro conjI)
qed

theorem update_stores_any_status_counterexample:
  "reachable (store (put_tasks later_env db_three 1 1
        (JStr ''Buy milk'') JUndefined (JStr ''done'')))
   \<and> status_ok db_three
   \<and> http_status (reply (put_tasks later_env db_three 1 1
        (JStr ''Buy milk'') JUndefined (JStr ''done''))) = 200
   \<and> map status (tasks (store (put_tasks later_env db_three 1 1
        (JStr ''Buy milk'') JUndefined (JStr ''done'')))) = [''done'', ''pending'', ''pending'']
   \<and> \<not> status_ok (store (put_tasks later_env db_three 1 1
        (JStr ''Buy milk'') JUndefined (JStr ''done'')))"
proof -
  have r: "reachable (store (put_tasks later_env db_three 1 1
        (JStr ''Buy milk'') JUndefined (JStr ''done'')))"
    by (rule reachable_put [OF reachable_db_three])
  have v: "status_ok db_three
   \<and> http_status (reply (put_tasks later_env db_three 1 1
        (JStr ''Buy milk'') JUndefined (JStr ''done''))) = 200
   \<and> map status (tasks (store (put_tasks later_env db_three 1 1
        (JStr ''Buy milk'') JUndefined (JStr ''done'')))) = [''done'', ''pending'', ''pending'']
   \<and> \<not> status_ok (store (put_tasks later_env db_three 1 1
        (JStr ''Buy milk'') JUndefined (JStr ''done'')))"
    by (simp add: status_ok_def db_three_eq demo_rows later_env_def demo_env_def
          put_tasks_def prim_defs)
  from r v show ?thesis by (rule conjI)
qed

text \<open>
  C4. After a successful \<open>PUT /tasks/:id\<close> the owner's row with that id exists, and in
  it the description is the empty string when the request gave none and the status is
  \<open>pending\<close> when the request gave none, whatever the row held before.
\<close>

theorem put_tasks_omitted_fields:
  assumes "http_status (reply (put_tasks e d uid tid ti de st)) = 200"
  shows "(\<exists>t \<in> set (tasks (store (put_tasks e d uid tid ti de st))).
            task_id t = tid \<and> user_id t = uid)
       \<and> (\<forall>t \<in> set (tasks (store (put_tasks e d uid tid ti de st))).
            task_id t = tid \<and> user_id t = uid \<longrightarrow>
              title t = str_of ti
            \<and> (de = JUndefined \<longrightarrow> description t = [])
            \<and> (st = JUndefined \<longrightarrow> status t = ''pending''))"
proof -
  define upd where "upd = (\<lambda>t::task. if task_id t = tid \<and> user_id t = uid
                   then t\<lparr>title := str_of ti, description := js_or de [],
                         status := js_or st ''pending'', updated_at := now e\<rparr>
                   else t)"
  have s: "tasks (store (put_tasks e d uid tid ti de st)) = map upd (tasks d)"
    using put_tasks_200 [OF assms] by (simp add: store_put_tasks upd_def)
  have "\<exists>t0 \<in> set (tasks d). task_id t0 = tid \<and> user_id t0 = uid"
    using put_tasks_200(3) [OF assms] by (simp add: filter_empty_conv)
  then obtain t0 where t0: "t0 \<in> set (tasks d)" "task_id t0 = tid" "user_id t0 = uid"
    by blast
  have own: "task_id (upd t0) = tid \<and> user_id (upd t0) = uid"
    using t0 by (simp add: upd_def)
  have "upd t0 \<in> set (map upd (tasks d))"
    using t0(1) by (simp only: set_map) (rule imageI)
  with own have ex: "\<exists>t \<in> set (map upd (tasks d)). task_id t = tid \<and> user_id t = uid"
    by (rule_tac x = "upd t0" in bexI)
  have all: "\<forall>t \<in> set (map upd (tasks d)).
            task_id t = tid \<and> user_id t = uid \<longrightarrow>
              title t = str_of ti
            \<and> (de = JUndefined \<longrightarrow> description t = [])
            \<and> (st = JUndefined \<longrightarrow> status t = ''pending'')"
  proof (intro ballI impI)
    fix t
    assume "t \<in> set (map upd (tasks d))" and o: "task_id t = tid \<and> user_id t = uid"
    then obtain x where x: "x \<in> set (tasks d)" "t = upd x"
      by (auto simp only: set_map)
    have "task_id x = tid \<and> user_id x = uid"
      using o x(2) by (cases "task_id x = tid \<and> user_id x = uid") (simp_all add: upd_def)
    then have "t = x\<lparr>title := str_of ti, description := js_or de [],
                     status := js_or st ''pending'', updated_at := now e\<rparr>"
      using x(2) by (simp add: upd_def)
    then show "title t = str_of ti
            \<and> (de = JUndefined \<longrightarrow> description t = [])
            \<and> (st = JUndefined \<longrightarrow> status t = ''pending'')"
      by (simp add: js_or_def)
  qed
  show ?thesis unfolding s using ex all by (rule conjI)
qed

theorem put_tasks_omitted_fields_witness:
  "http_status (reply (put_tasks later_env db_done 1 1 (JStr ''Buy milk'') JUndefined JUndefined)) = 200
   \<and> map description (tasks db_done) = [''2 litres'', ''by Friday'', []]
   \<and> map status (tasks db_done) = [''completed'', ''pending'', ''pending'']
   \<and> map description (tasks (store (put_tasks later_env db_done 1 1
          (JStr ''Buy milk'') JUndefined JUndefined))) = [[], ''by Friday'', []]
   \<and> map status (tasks (store (put_tasks later_env db_done 1 1
          (JStr ''Buy milk'') JUndefined JUndefined))) = [''pending'', ''pending'', ''pending'']"
proof -
  let ?out = "put_tasks later_env db_done 1 1 (JStr ''Buy milk'') JUndefined JUndefined"
  have h: "http_status (reply ?out) = 200"
    by (simp add: db_done_eq later_env_def demo_env_def demo_rows put_tasks_def prim_defs)
  have t: "map task_id (tasks (store ?out)) = [1, 2, 3]"
      "map user_id (tasks (store ?out)) = [1, 2, 1]"
      "map description (tasks (store ?out)) = [description (tasks (store ?out) ! 0), ''by Friday'', []]"
      "map status (tasks (store ?out)) = [status (tasks (store ?out) ! 0), ''pending'', ''pending'']"
    by (simp_all add: db_done_eq demo_rows store_put_tasks later_env_def demo_env_def)
  have m: "tasks (store ?out) ! 0 \<in> set (tasks (store ?out))"
    by (simp add: db_done_eq demo_rows store_put_tasks later_env_def demo_env_def)
  have i: "task_id (tasks (store ?out) ! 0) = 1 \<and> user_id (tasks (store ?out) ! 0) = 1"
    by (simp add: db_done_eq demo_rows store_put_tasks later_env_def demo_env_def)
  from put_tasks_omitted_fields [OF h] m i
  have "description (tasks (store ?out) ! 0) = [] \<and> status (tasks (store ?out) ! 0) = ''pending''"
    by blast
  with h t show ?thesis
    by (simp add: db_done_eq demo_rows)
qed

text \<open>
  C5. When \<open>POST /tasks\<close> answers 201, its body is a task row with the title sent,
  the description sent or the empty string when none was sent, and status
  \<open>pending\<close>. A \<open>GET /tasks\<close> of the same account on the resulting store, the engine
  answering, returns 200 with a list that holds this very row, and no other row with
  its id.
\<close>

theorem post_tasks_then_list:
  assumes "http_status (reply (post_tasks e d owner ti de)) = 201"
    and "\<not> fails e' (SelectTasksByUser owner)"
  shows "\<exists>row rows.
           body (reply (post_tasks e d owner ti de)) = TaskRow (Some row)
         \<and> truthy ti \<and> title row = str_of ti
         \<and> description row = js_or de [] \<and> (de = JUndefined \<longrightarrow> description row = [])
         \<and> status row = ''pending''
         \<and> reply (get_tasks e' (store (post_tasks e d owner ti de)) owner) =
             \<lparr>http_status = 200, body = TaskRows rows\<rparr>
         \<and> row \<in> set rows
         \<and> (\<forall>r \<in> set rows. task_id r = task_id row \<longrightarrow> r = row)"
proof -
  define row where "row = new_task e d (str_of ti) (js_or de []) owner"
  define d1 where "d1 = d\<lparr>tasks := tasks d @ [row], tasks_seq := task_id row\<rparr>"
  define rows where
    "rows = sort_key (\<lambda>t. - int (created_at t)) (filter (\<lambda>t. user_id t = owner) (tasks d1))"
  have ti: "truthy ti"
    using assms(1) by (cases "truthy ti") (simp_all add: post_tasks_def respond_def)
  have ins: "\<not> fails e (InsertTask (str_of ti) (js_or de []) owner)"
    using assms(1) ti by (auto simp add: post_tasks_def insert_task_def respond_def Let_def)
  have fresh: "\<forall>t \<in> set (tasks d). \<not> task_id t = task_id row"
    using new_task_id_fresh [of _ d e "str_of ti" "js_or de []" owner] by (simp add: row_def)
  then have found: "find (\<lambda>t. task_id t = task_id row) (tasks d @ [row]) = Some row"
    by (rule find_fresh_append) simp
  have sel: "\<not> fails e (SelectTaskById (task_id row))"
    using assms(1) ti ins
    by (auto simp add: post_tasks_def insert_task_def select_task_by_id_def respond_def Let_def
          row_def)
  have b: "body (reply (post_tasks e d owner ti de)) = TaskRow (Some row)"
    using ti ins sel found
    by (simp add: post_tasks_def insert_task_def select_task_by_id_def respond_def Let_def
          row_def [symmetric] task_where_pred)
  have st: "store (post_tasks e d owner ti de) = d1"
    using ti ins by (simp add: store_post_tasks d1_def row_def)
  have l: "reply (get_tasks e' d1 owner) = \<lparr>http_status = 200, body = TaskRows rows\<rparr>"
    using assms(2)
    by (simp add: get_tasks_def select_tasks_by_user_def respond_def Let_def rows_def
          task_where_pred)
  have f: "title row = str_of ti \<and> description row = js_or de []
         \<and> (de = JUndefined \<longrightarrow> description row = []) \<and> status row = ''pending''"
    by (simp add: row_def new_task_def js_or_def)
  have m: "row \<in> set rows"
    by (simp add: rows_def d1_def) (simp add: row_def new_task_def)
  have u: "\<forall>r \<in> set rows. task_id r = task_id row \<longrightarrow> r = row"
    using fresh by (auto simp add: rows_def d1_def)
  show ?thesis
    unfolding st using b f ti l m u by blast
qed

theorem post_tasks_then_list_witness:
  "http_status (reply (post_tasks later_env db_two 1 (JStr ''Call home'') JUndefined)) = 201
   \<and> \<not> fails demo_env (SelectTasksByUser 1)
   \<and> body (reply (post_tasks later_env db_two 1 (JStr ''Call home'') JUndefined)) =
        TaskRow (Some task_three)
   \<and> reply (get_tasks demo_env
        (store (post_tasks later_env db_two 1 (JStr ''Call home'') JUndefined)) 1) =
        \<lparr>http_status = 200, body = TaskRows [task_three, task_one]\<rparr>"
proof -
  let ?out = "post_tasks later_env db_two 1 (JStr ''Call home'') JUndefined"
  have h: "http_status (reply ?out) = 201" "\<not> fails demo_env (SelectTasksByUser 1)"
    by (simp_all add: db_two_eq later_env_def demo_env_def demo_rows post_tasks_def prim_defs)
  have b: "body (reply ?out) = TaskRow (Some task_three)"
    by (simp add: db_two_eq later_env_def demo_env_def demo_rows post_tasks_def prim_defs)
  have s: "store ?out = db_three"
    by (simp add: db_three_def)
  from post_tasks_then_list [OF h] obtain row rows where
    r: "body (reply ?out) = TaskRow (Some row)"
       "reply (get_tasks demo_env (store ?out) 1) = \<lparr>http_status = 200, body = TaskRows rows\<rparr>"
       "row \<in> set rows"
    by blast
  have g: "body (reply (get_tasks demo_env db_three 1)) = TaskRows [task_three, task_one]"
    by (simp add: db_three_eq demo_env_def demo_rows get_tasks_def prim_defs)
  from r(2) have "body (reply (get_tasks demo_env db_three 1)) = TaskRows rows"
    unfolding s by simp
  with g have "rows = [task_three, task_one]"
    by simp
  with h b r(2) show ?thesis by simp
qed

text \<open>
  C9. \<open>GET /tasks\<close> answers 200 unless the engine fails, and then 500. On 200 the body
  holds exactly the owner's task rows (as a multiset), ordered by \<open>created_at\<close>
  descending, and is empty when the owner has no task. The store is not changed.
\<close>

theorem get_tasks_lists_owner_rows:
  "http_status (reply (get_tasks e d owner)) =
      (if fails e (SelectTasksByUser owner) then 500 else 200)
   \<and> store (get_tasks e d owner) = d
   \<and> (\<not> fails e (SelectTasksByUser owner) \<longrightarrow>
        (\<exists>rows. body (reply (get_tasks e d owner)) = TaskRows rows
           \<and> mset rows = mset (filter (\<lambda>t. user_id t = owner) (tasks d))
           \<and> sorted_wrt (\<lambda>a b. created_at b \<le> created_at a) rows
           \<and> ((\<forall>t \<in> set (tasks d). user_id t \<noteq> owner) \<longrightarrow> rows = [])))"
proof -
  let ?f = "\<lambda>t. - int (created_at t)"
  let ?rows = "sort_key ?f (filter (\<lambda>t. user_id t = owner) (tasks d))"
  have c: "http_status (reply (get_tasks e d owner)) =
      (if fails e (SelectTasksByUser owner) then 500 else 200)"
    by (simp add: get_tasks_def select_tasks_by_user_def respond_def Let_def)
  have r: "\<not> fails e (SelectTasksByUser owner) \<Longrightarrow>
      body (reply (get_tasks e d owner)) = TaskRows ?rows"
    by (simp add: get_tasks_def select_tasks_by_user_def respond_def Let_def task_where_pred)
  have m: "mset ?rows = mset (filter (\<lambda>t. user_id t = owner) (tasks d))"
    by simp
  have "sorted (map ?f ?rows)" by (rule sorted_sort_key)
  then have s: "sorted_wrt (\<lambda>a b. created_at b \<le> created_at a) ?rows"
    by (simp add: sorted_wrt_map)
  have n: "(\<forall>t \<in> set (tasks d). user_id t \<noteq> owner) \<longrightarrow> ?rows = []"
    by (simp add: filter_empty_conv)
  show ?thesis
    using c r m s n store_get_tasks [of e d owner] by blast
qed

theorem get_tasks_lists_owner_rows_witness:
  "http_status (reply (get_tasks demo_env db_three 1)) = 200
   \<and> body (reply (get_tasks demo_env db_three 1)) = TaskRows [task_three, task_one]
   \<and> mset [task_three, task_one] = mset (filter (\<lambda>t. user_id t = 1) (tasks db_three))
   \<and> sorted_wrt (\<lambda>a b. created_at b \<le> created_at a) [task_three, task_one]
   \<and> http_status (reply (get_tasks broken_env db_three 1)) = 500"
proof -
  have b: "body (reply (get_tasks demo_env db_three 1)) = TaskRows [task_three, task_one]"
    by (simp add: db_three_eq demo_env_def demo_rows get_tasks_def prim_defs)
  have f: "\<not> fails demo_env (SelectTasksByUser 1)"
    by (simp add: demo_env_def)
  have g: "fails broken_env (SelectTasksByUser 1)"
    by (simp add: broken_env_def)
  show ?thesis
    using get_tasks_lists_owner_rows [of demo_env db_three 1]
      get_tasks_lists_owner_rows [of broken_env db_three 1] b f g
    by auto
qed

text \<open>
  C10. A successful \<open>PUT /tasks/:id\<close> leaves the account rows and both sequences as
  they were, keeps the number and order of the task rows, keeps \<open>id\<close>, \<open>user_id\<close> and
  \<open>created_at\<close> of every row, leaves every row that is not the owner's row with that id
  untouched, and sets exactly \<open>title\<close>, \<open>description\<close>, \<open>status\<close> and \<open>updated_at\<close> in
  the targeted row.
\<close>

theorem put_tasks_frame:
  assumes "http_status (reply (put_tasks e d uid tid ti de st)) = 200"
  shows "users (store (put_tasks e d uid tid ti de st)) = users d
       \<and> users_seq (store (put_tasks e d uid tid ti de st)) = users_seq d
       \<and> tasks_seq (store (put_tasks e d uid tid ti de st)) = tasks_seq d
       \<and> length (tasks (store (put_tasks e d uid tid ti de st))) = length (tasks d)
       \<and> (\<forall>n < length (tasks d).
            task_id (tasks (store (put_tasks e d uid tid ti de st)) ! n) = task_id (tasks d ! n)
          \<and> user_id (tasks (store (put_tasks e d uid tid ti de st)) ! n) = user_id (tasks d ! n)
          \<and> created_at (tasks (store (put_tasks e d uid tid ti de st)) ! n) = created_at (tasks d ! n)
          \<and> (task_id (tasks d ! n) \<noteq> tid \<or> user_id (tasks d ! n) \<noteq> uid \<longrightarrow>
               tasks (store (put_tasks e d uid tid ti de st)) ! n = tasks d ! n)
          \<and> (task_id (tasks d ! n) = tid \<and> user_id (tasks d ! n) = uid \<longrightarrow>
               tasks (store (put_tasks e d uid tid ti de st)) ! n =
                 (tasks d ! n)\<lparr>title := str_of ti, description := js_or de [],
                                status := js_or st ''pending'', updated_at := now e\<rparr>))"
proof -
  have s: "store (put_tasks e d uid tid ti de st) =
      d\<lparr>tasks := map (\<lambda>t. if task_id t = tid \<and> user_id t = uid
                          then t\<lparr>title := str_of ti, description := js_or de [],
                                status := js_or st ''pending'', updated_at := now e\<rparr>
                          else t) (tasks d)\<rparr>"
    using put_tasks_200 [OF assms] by (simp add: store_put_tasks)
  show ?thesis unfolding s by simp
qed

theorem put_tasks_frame_witness:
  "http_status (reply (put_tasks later_env db_three 1 1
       (JStr ''Buy milk'') JUndefined (JStr ''completed''))) = 200
   \<and> tasks (store (put_tasks later_env db_three 1 1
       (JStr ''Buy milk'') JUndefined (JStr ''completed''))) ! 0
       = task_one\<lparr>status := ''completed'', updated_at := 2000\<rparr>
   \<and> tasks (store (put_tasks later_env db_three 1 1
       (JStr ''Buy milk'') JUndefined (JStr ''completed''))) ! 1 = task_two
   \<and> tasks (store (put_tasks later_env db_three 1 1
       (JStr ''Buy milk'') JUndefined (JStr ''completed''))) ! 2 = task_three
   \<and> users (store (put_tasks later_env db_three 1 1
       (JStr ''Buy milk'') JUndefined (JStr ''completed''))) = [user_a, user_b]"
proof -
  let ?out = "put_tasks later_env db_three 1 1 (JStr ''Buy milk'') JUndefined (JStr ''completed'')"
  note f = put_tasks_frame [OF demo_put_200 [of "JStr ''completed''"]]
  from f have u: "users (store ?out) = users db_three" by blast
  from f have n: "\<forall>n < length (tasks db_three).
      (task_id (tasks db_three ! n) \<noteq> 1 \<or> user_id (tasks db_three ! n) \<noteq> 1 \<longrightarrow>
         tasks (store ?out) ! n = tasks db_three ! n)
    \<and> (task_id (tasks db_three ! n) = 1 \<and> user_id (tasks db_three ! n) = 1 \<longrightarrow>
         tasks (store ?out) ! n =
           (tasks db_three ! n)\<lparr>title := str_of (JStr ''Buy milk''),
              description := js_or JUndefined [], status := js_or (JStr ''completed'') ''pending'',
              updated_at := now later_env\<rparr>)"
    by blast
  have 0: "tasks (store ?out) ! 0 = task_one\<lparr>status := ''completed'', updated_at := 2000\<rparr>"
    using n [rule_format, of 0]
    by (simp add: db_three_eq demo_rows js_or_def later_env_def demo_env_def)
  have 1: "tasks (store ?out) ! 1 = task_two"
    using n [rule_format, of 1] by (simp add: db_three_eq demo_rows)
  have 2: "tasks (store ?out) ! 2 = task_three"
    using n [rule_format, of 2] by (simp add: db_three_eq demo_rows)
  show ?thesis
    using demo_put_200 [of "JStr ''completed''"] u 0 1 2 by (simp add: db_three_eq)
qed

subsection \<open>Account routes\<close>

text \<open>
  C6. When a signup has succeeded (201), a second signup with the same email and any
  password that passes validation is answered, the engine answering the lookup, with
  status 400 and \<open>User already exists\<close>; it leaves the store as the first signup left
  it, and exactly one account row holds that email.
\<close>

theorem signup_twice_conflict:
  assumes "http_status (reply (signup e1 d em pw1)) = 201"
    and "truthy pw2" and "6 \<le> length (str_of pw2)"
    and "\<not> fails e2 (SelectUserByEmail (str_of em))"
  shows "reply (signup e2 (store (signup e1 d em pw1)) em pw2) =
           \<lparr>http_status = 400, body = Error ''User already exists''\<rparr>
       \<and> store (signup e2 (store (signup e1 d em pw1)) em pw2) = store (signup e1 d em pw1)
       \<and> length (filter (\<lambda>u. email u = str_of em)
                   (users (store (signup e2 (store (signup e1 d em pw1)) em pw2)))) = 1"
proof -
  define row :: user where
    "row = \<lparr>user_row_id = next_rowid (map user_row_id (users d)) (users_seq d),
            email = str_of em, password = bcrypt_hash e1 (str_of pw1),
            user_created_at = now e1\<rparr>"
  define d1 where "d1 = store (signup e1 d em pw1)"
  have em: "truthy em"
    using assms(1) by (cases "truthy em") (simp_all add: signup_def respond_def)
  have pw: "truthy pw1 \<and> \<not> length (str_of pw1) < 6"
    using assms(1) em
    by (cases "truthy pw1"; cases "length (str_of pw1) < 6") (simp_all add: signup_def respond_def)
  have sel: "select_user_by_email e1 d (str_of em) = Inr None"
    using assms(1) em pw
    by (cases "select_user_by_email e1 d (str_of em)")
       (auto simp add: signup_def respond_def Let_def split: option.splits)
  then have none: "find (\<lambda>u. email u = str_of em) (users d) = None"
    by (simp add: select_user_by_email_def split: if_splits)
  then have absent: "\<forall>u \<in> set (users d). \<not> email u = str_of em"
    by (simp add: find_None_iff)
  have ins: "\<not> fails e1 (InsertUser (str_of em) (bcrypt_hash e1 (str_of pw1)))"
    using assms(1) em pw sel
    by (auto simp add: signup_def insert_user_def respond_def Let_def)
  have d1: "users d1 = users d @ [row]"
    using em pw sel ins absent
    by (auto simp add: d1_def row_def signup_def insert_user_def respond_def Let_def)
  have "email row = str_of em" by (simp add: row_def)
  with absent have found: "find (\<lambda>u. email u = str_of em) (users d1) = Some row"
    unfolding d1 by (rule find_fresh_append)
  have r2: "signup e2 d1 em pw2 = respond d1 400 (Error ''User already exists'')
              [ran e2 d1 (SelectUserByEmail (str_of em))]"
    using em assms(2,3,4) found
    by (simp add: signup_def select_user_by_email_def Let_def)
  have one: "length (filter (\<lambda>u. email u = str_of em) (users d1)) = 1"
    unfolding d1 using absent by (simp add: filter_empty_conv row_def)
  show ?thesis
    unfolding d1_def [symmetric] r2 using one by (simp add: respond_def)
qed

theorem signup_twice_conflict_witness:
  "http_status (reply (signup demo_env empty_db (JStr ''a@x.com'') (JStr ''secret1''))) = 201
   \<and> truthy (JStr ''another-password'')
   \<and> 6 \<le> length (str_of (JStr ''another-password''))
   \<and> \<not> fails later_env (SelectUserByEmail (str_of (JStr ''a@x.com'')))
   \<and> reply (signup later_env db_a (JStr ''a@x.com'') (JStr ''another-password'')) =
        \<lparr>http_status = 400, body = Error ''User already exists''\<rparr>
   \<and> users (store (signup later_env db_a (JStr ''a@x.com'') (JStr ''another-password'')))
        = [user_a]"
proof -
  have h: "http_status (reply (signup demo_env empty_db (JStr ''a@x.com'') (JStr ''secret1''))) = 201"
      "truthy (JStr ''another-password'')"
      "6 \<le> length (str_of (JStr ''another-password''))"
      "\<not> fails later_env (SelectUserByEmail (str_of (JStr ''a@x.com'')))"
    by (simp_all add: demo_env_def later_env_def empty_db_def signup_def prim_defs)
  from signup_twice_conflict [OF h] h show ?thesis
    by (simp add: db_a_def [symmetric] db_a_eq)
qed

text \<open>
  C7. A signup whose password is a string of fewer than six characters is answered with
  status 400 and a validation message, runs no statement and leaves the store as it was:
  no account row is created.
\<close>

theorem signup_short_password:
  assumes "length p < 6"
  shows "store (signup e d em (JStr p)) = d
       \<and> trace (signup e d em (JStr p)) = []
       \<and> reply (signup e d em (JStr p)) =
           \<lparr>http_status = 400,
            body = (if truthy em \<and> p \<noteq> [] then Error ''Password must be at least 6 characters''
                    else Error ''Email and password are required'')\<rparr>"
  using assms by (simp add: signup_def respond_def)

theorem signup_short_password_witness:
  "length ''abc'' < (6::nat)
   \<and> store (signup demo_env db_a (JStr ''b@x.com'') (JStr ''abc'')) = db_a
   \<and> trace (signup demo_env db_a (JStr ''b@x.com'') (JStr ''abc'')) = []
   \<and> reply (signup demo_env db_a (JStr ''b@x.com'') (JStr ''abc'')) =
        \<lparr>http_status = 400, body = Error ''Password must be at least 6 characters''\<rparr>"
  using signup_short_password [of "''abc''" demo_env db_a "JStr ''b@x.com''"] by simp

text \<open>
  C8. With both fields present and the lookup answered by the engine, a login with an
  unknown email is answered 400 \<open>Invalid credentials\<close>. A login with a known email is
  answered the same when its password is a string that bcrypt does not accept (lemma
  \<open>login_invalid_credentials_strings\<close>), but gets no response at all when its
  password is a number other than \<open>0\<close>, \<open>true\<close>, an array or an object: then
  \<open>bcrypt.compare\<close> rejects and the route answers nothing, so the two causes differ.
\<close>

theorem login_non_string_password:
  assumes "truthy em1" and "truthy em2"
    and "pw = JNum n \<and> n \<noteq> 0 \<or> pw = JBool True \<or> pw = JObj"
    and "\<not> fails e (SelectUserByEmail (str_of em1))"
    and "\<not> fails e (SelectUserByEmail (str_of em2))"
    and "find (\<lambda>u. email u = str_of em1) (users d) = None"
    and "find (\<lambda>u. email u = str_of em2) (users d) = Some u"
  shows "reply (login e d em1 pw) =
           Some \<lparr>http_status = 400, body = Error ''Invalid credentials''\<rparr>
       \<and> reply (login e d em2 pw) = None
       \<and> reply (login e d em1 pw) \<noteq> reply (login e d em2 pw)"
proof -
  have t: "truthy_any pw" and c: "compare_password e pw (password u) = None"
    using assms(3) by auto
  have 1: "reply (login e d em1 pw) =
           Some \<lparr>http_status = 400, body = Error ''Invalid credentials''\<rparr>"
    using assms(1,4,6) t
    by (simp add: login_def select_user_by_email_def respond_def answered_def)
  have 2: "reply (login e d em2 pw) = None"
    using assms(2,5,7) t c
    by (simp add: login_def select_user_by_email_def unanswered_def)
  show ?thesis
    using 1 2 by simp
qed

theorem login_non_string_password_witness:
  "truthy (JStr ''c@x.com'') \<and> truthy (JStr ''a@x.com'')
   \<and> \<not> fails demo_env (SelectUserByEmail (str_of (JStr ''c@x.com'')))
   \<and> \<not> fails demo_env (SelectUserByEmail (str_of (JStr ''a@x.com'')))
   \<and> find (\<lambda>u. email u = str_of (JStr ''c@x.com'')) (users db_ab) = None
   \<and> find (\<lambda>u. email u = str_of (JStr ''a@x.com'')) (users db_ab) = Some user_a
   \<and> reply (login demo_env db_ab (JStr ''c@x.com'') (JNum 123456)) =
       Some \<lparr>http_status = 400, body = Error ''Invalid credentials''\<rparr>
   \<and> reply (login demo_env db_ab (JStr ''a@x.com'') (JNum 123456)) = None"
proof -
  have h: "truthy (JStr ''c@x.com'')" "truthy (JStr ''a@x.com'')"
      "JNum 123456 = JNum 123456 \<and> (123456::int) \<noteq> 0 \<or> JNum 123456 = JBool True
         \<or> JNum 123456 = JObj"
      "\<not> fails demo_env (SelectUserByEmail (str_of (JStr ''c@x.com'')))"
      "\<not> fails demo_env (SelectUserByEmail (str_of (JStr ''a@x.com'')))"
      "find (\<lambda>u. email u = str_of (JStr ''c@x.com'')) (users db_ab) = None"
      "find (\<lambda>u. email u = str_of (JStr ''a@x.com'')) (users db_ab) = Some user_a"
    by (simp_all add: demo_env_def db_ab_eq user_a_def user_b_def)
  from login_non_string_password [OF h] h(1,2,4,5,6,7) show ?thesis
    by (intro conjI) simp_all
qed

end
